theory Spec2Isabelle
  imports Main "HOL-Library.Sublist"
begin

section \<open>Go errors\<close>

text \<open>
  A Go \<open>error\<close> value is modelled by how it was built. \<open>ErrorString m\<close> is an error
  without a cause (\<open>fmt.Errorf\<close> with no \<open>%w\<close> verb, or an error of a library);
  \<open>WrapError p c\<close> is \<open>fmt.Errorf(p + "%w", c)\<close>, whose message is the prefix
  followed by the message of the cause and which unwraps to the cause;
  \<open>ExitError st m\<close> is the \<open>*ssh.ExitError\<close> of a remote exit status \<open>st\<close>.
  A Go \<open>nil\<close> error is \<open>None\<close> of \<open>error option\<close>.
\<close>

datatype error =
    ErrorString string
  | WrapError string error
  | ExitError int string

fun Error :: "error \<Rightarrow> string" where
  "Error (ErrorString m) = m"
| "Error (WrapError p c) = p @ Error c"
| "Error (ExitError st m) = m"

fun Unwrap :: "error \<Rightarrow> error option" where
  "Unwrap (WrapError p c) = Some c"
| "Unwrap (ErrorString m) = None"
| "Unwrap (ExitError st m) = None"

text \<open>The format fragment \<open>'%s'\<close>: the argument between two single quotes.\<close>

definition quoted :: "string \<Rightarrow> string" where
  "quoted s = [CHR 0x27] @ s @ [CHR 0x27]"

section \<open>The secret store: \<open>internal/vault/vault_api.go\<close>\<close>

text \<open>
  A decoded JSON value, Go's \<open>interface{}\<close> after decoding: \<open>JNull\<close> is the nil
  interface, \<open>JList\<close> is \<open>[]interface{}\<close> and \<open>JMap\<close> is \<open>map[string]interface{}\<close>.
\<close>

datatype jval =
    JNull
  | JBool bool
  | JNum int
  | JStr string
  | JList "jval list"
  | JMap "string \<Rightarrow> jval option"

text \<open>\<open>api.Secret\<close>: only its \<open>Data\<close> map is read; a nil map is \<open>None\<close>.\<close>

record Secret =
  Data :: "(string \<Rightarrow> jval option) option"

text \<open>
  The Vault client's logical backend: what \<open>client.Logical().Read(path)\<close> and
  \<open>client.Logical().List(path)\<close> return, an error or a possibly nil secret.
\<close>

record Client =
  logical_Read :: "string \<Rightarrow> error + Secret option"
  logical_List :: "string \<Rightarrow> error + Secret option"

record VaultSecret =
  Hostname :: string
  IP :: string
  Port :: string
  Username :: string
  Password :: string
  Key :: string
  KeyPassphrase :: string

text \<open>The \<open>json\<close> struct tags of \<open>VaultSecret\<close>, in field order.\<close>

definition VaultSecret_tags :: "string list" where
  "VaultSecret_tags =
     [''hostname'', ''ip'', ''port'', ''username'', ''password,omitempty'',
      ''key,omitempty'', ''key_passphrase,omitempty'']"

text \<open>\<open>strings.Cut(s, sep)\<close> for a separator of one character.\<close>

definition Cut :: "string \<Rightarrow> char \<Rightarrow> string \<times> string \<times> bool" where
  "Cut s sep =
     (case dropWhile (\<lambda>c. c \<noteq> sep) s of
        [] \<Rightarrow> (s, [], False)
      | _ # after \<Rightarrow> (takeWhile (\<lambda>c. c \<noteq> sep) s, after, True))"

text \<open>\<open>structVal.Field(i).SetString(valStr)\<close> on a \<open>VaultSecret\<close>.\<close>

definition SetString :: "nat \<Rightarrow> string \<Rightarrow> VaultSecret \<Rightarrow> VaultSecret" where
  "SetString i valStr s =
     (if i = 0 then s\<lparr>Hostname := valStr\<rparr>
      else if i = 1 then s\<lparr>IP := valStr\<rparr>
      else if i = 2 then s\<lparr>Port := valStr\<rparr>
      else if i = 3 then s\<lparr>Username := valStr\<rparr>
      else if i = 4 then s\<lparr>Password := valStr\<rparr>
      else if i = 5 then s\<lparr>Key := valStr\<rparr>
      else if i = 6 then s\<lparr>KeyPassphrase := valStr\<rparr>
      else s)"

text \<open>
  Lines 99 to 103 of \<open>ReadPath\<close>: the map key of a struct tag, the tag cut at its
  comma when it has one.
\<close>

definition jsonTag_of :: "string \<Rightarrow> string" where
  "jsonTag_of tag =
     (case Cut tag (CHR '','') of (tagName, _, found) \<Rightarrow> if found then tagName else tag)"

text \<open>
  Lines 106 to 117: a value stored under the key is copied into field \<open>i\<close> when it is
  a string, and skipped otherwise.
\<close>

definition copy_field ::
  "(string \<Rightarrow> jval option) \<Rightarrow> nat \<Rightarrow> string \<Rightarrow> VaultSecret \<Rightarrow> VaultSecret" where
  "copy_field secretData i jsonTag parsedSecret =
     (case secretData jsonTag of
        Some (JStr valStr) \<Rightarrow> SetString i valStr parsedSecret
      | _ \<Rightarrow> parsedSecret)"

text \<open>The reflection loop of \<open>ReadPath\<close> over the struct fields, from field \<open>i\<close> on.\<close>

fun map_fields ::
  "(string \<Rightarrow> jval option) \<Rightarrow> nat \<Rightarrow> string list \<Rightarrow> VaultSecret \<Rightarrow> VaultSecret" where
  "map_fields secretData i [] parsedSecret = parsedSecret"
| "map_fields secretData i (tag # tags) parsedSecret =
     map_fields secretData (Suc i) tags (copy_field secretData i (jsonTag_of tag) parsedSecret)"

text \<open>The zero value \<open>&VaultSecret{}\<close>.\<close>

definition VaultSecret_zero :: VaultSecret where
  "VaultSecret_zero =
     \<lparr>Hostname = '''', IP = '''', Port = '''', Username = '''', Password = '''',
      Key = '''', KeyPassphrase = ''''\<rparr>"

text \<open>
  Lines 77 to 89 of \<open>ReadPath\<close>: the map the fields are read from. The nested map under
  \<open>"data"\<close> when that entry is a map; otherwise the top-level map, accepted only when
  its \<open>"hostname"\<close> entry is a string. \<open>None\<close> is the rejection.
\<close>

definition select_data :: "(string \<Rightarrow> jval option) \<Rightarrow> (string \<Rightarrow> jval option) option" where
  "select_data d =
     (case d ''data'' of
        Some (JMap m) \<Rightarrow> Some m
      | _ \<Rightarrow> (case d ''hostname'' of Some (JStr h) \<Rightarrow> Some d | _ \<Rightarrow> None))"

text \<open>Lines 91 to 127 of \<open>ReadPath\<close>: field extraction, then the credential check.\<close>

definition parse_secret :: "string \<Rightarrow> (string \<Rightarrow> jval option) \<Rightarrow> error + VaultSecret" where
  "parse_secret path secretData =
     (let parsedSecret = map_fields secretData 0 VaultSecret_tags VaultSecret_zero
      in if Password parsedSecret = '''' \<and> Key parsedSecret = ''''
         then Inl (ErrorString
                (''either 'password' or 'key' must be provided in secret at path ''
                 @ quoted path))
         else Inr parsedSecret)"

definition ReadPath :: "Client option \<Rightarrow> string \<Rightarrow> error + VaultSecret" where
  "ReadPath client path =
     (case client of
        None \<Rightarrow> Inl (ErrorString ''Vault client is not initialized'')
      | Some c \<Rightarrow>
          (case logical_Read c path of
             Inl err \<Rightarrow> Inl (WrapError (''failed to read path '' @ quoted path @ '': '') err)
           | Inr None \<Rightarrow> Inl (ErrorString (''no secret found at path '' @ quoted path))
           | Inr (Some secret) \<Rightarrow>
               (case Data secret of
                  None \<Rightarrow> Inl (ErrorString (''no secret found at path '' @ quoted path))
                | Some d \<Rightarrow>
                    (case select_data d of
                       None \<Rightarrow>
                         Inl (ErrorString
                           (''secret data at path '' @ quoted path @
                            '' is not in expected KV v2 format (missing 'data' map) or compatible KV v1 format''))
                     | Some secretData \<Rightarrow> parse_secret path secretData))))"

text \<open>The loop of \<open>ListPath\<close> over the items of \<open>"keys"\<close>, appending to \<open>keys\<close>.\<close>

fun parse_keys :: "jval list \<Rightarrow> string list \<Rightarrow> error + string list" where
  "parse_keys [] keys = Inr keys"
| "parse_keys (keyInterface # rest) keys =
     (case keyInterface of
        JStr key \<Rightarrow> parse_keys rest (keys @ [key])
      | _ \<Rightarrow> Inl (ErrorString ''failed to parse key: item in 'keys' is not a string''))"

text \<open>A nil slice and an empty slice are both the empty list.\<close>

definition ListPath :: "Client option \<Rightarrow> string \<Rightarrow> error + string list" where
  "ListPath client path =
     (case client of
        None \<Rightarrow> Inl (ErrorString ''Vault client is not initialized'')
      | Some c \<Rightarrow>
          (case logical_List c path of
             Inl err \<Rightarrow> Inl (WrapError (''failed to list path '' @ quoted path @ '': '') err)
           | Inr None \<Rightarrow> Inr []
           | Inr (Some secret) \<Rightarrow>
               (case Data secret of
                  None \<Rightarrow> Inr []
                | Some d \<Rightarrow>
                    (case d ''keys'' of
                       None \<Rightarrow> Inr []
                     | Some JNull \<Rightarrow> Inr []
                     | Some (JList keysInterface) \<Rightarrow> parse_keys keysInterface []
                     | Some _ \<Rightarrow>
                         Inl (ErrorString
                           (''failed to parse keys from path '' @ quoted path @
                            '': 'keys' field is not a []interface{}''))))))"

text \<open>
  The test double of the vault tests (\<open>newTestVaultClient\<close>): a client whose store
  answers every request with the given response.
\<close>

definition newTestVaultClient :: "error + Secret option \<Rightarrow> Client" where
  "newTestVaultClient response =
     \<lparr>logical_Read = (\<lambda>path. response), logical_List = (\<lambda>path. response)\<rparr>"

text \<open>
  The string a map stores under a key: empty when the key is absent or holds a value
  that is not a string. It states what the extraction yields for one field.
\<close>

definition string_at :: "(string \<Rightarrow> jval option) \<Rightarrow> string \<Rightarrow> string" where
  "string_at d k = (case d k of Some (JStr v) \<Rightarrow> v | _ \<Rightarrow> '''')"

section \<open>The shell session: \<open>pkg/sshclient/sshclient.go\<close>\<close>

text \<open>\<open>SSHConfig\<close>; the key is a byte slice, nil or empty when no key is given.\<close>

record SSHConfig =
  Address :: string
  User :: string
  Port :: string
  Key :: string
  Passphrase :: string
  Password :: string

text \<open>
  Values of the SSH library. A signer and a raw private key are opaque and stand for
  the key they hold; an authentication method is built by \<open>ssh.PublicKeys\<close> or by
  \<open>ssh.Password\<close>; a host key callback is built by \<open>ssh.InsecureIgnoreHostKey\<close>,
  which accepts every host key, or by a known-hosts verifier over a file.
\<close>

datatype Signer = Signer string

datatype RawKey = RawKey string

datatype AuthMethod = ssh_PublicKeys Signer | ssh_Password string

datatype HostKeyCallback = InsecureIgnoreHostKey | KnownHosts string

record ClientConfig =
  User :: string
  Auth :: "AuthMethod list"
  HostKeyCallback :: HostKeyCallback

text \<open>The opcodes of \<open>ssh.TerminalModes\<close> that the client sets.\<close>

definition ECHO :: nat where
  "ECHO = 53"

definition TTY_OP_ISPEED :: nat where
  "TTY_OP_ISPEED = 128"

definition TTY_OP_OSPEED :: nat where
  "TTY_OP_OSPEED = 129"

text \<open>
  Everything \<open>ConnectAndShell\<close> calls outside itself, as the answers it gets: the key
  parsers of the SSH library, the dial, the session, the local terminal and the remote
  shell. A call that returns only an error is \<open>None\<close> on success.
\<close>

record World =
  ParsePrivateKey :: "string \<Rightarrow> error + Signer"
  ParseRawPrivateKeyWithPassphrase :: "string \<Rightarrow> string \<Rightarrow> error + RawKey"
  NewSignerFromKey :: "RawKey \<Rightarrow> error + Signer"
  Dial :: "string \<Rightarrow> ClientConfig \<Rightarrow> error option"
  NewSession :: "error option"
  IsTerminal :: bool
  MakeRaw :: "error option"
  GetSize :: "error + int \<times> int"
  RequestPty :: "string \<Rightarrow> int \<Rightarrow> int \<Rightarrow> (nat \<Rightarrow> nat option) \<Rightarrow> error option"
  Shell :: "error option"
  Wait :: "error option"

text \<open>
  The calls with an effect, in the order they are made; the deferred calls run when the
  function returns, last deferred first. \<open>CallRequestPty\<close> carries the arguments of
  \<open>session.RequestPty(term, h, w, modes)\<close>.
\<close>

datatype call =
    CallDial string ClientConfig
  | CallNewSession
  | CallMakeRaw
  | CallGetSize
  | CallRequestPty string int int "nat \<Rightarrow> nat option"
  | CallShell
  | CallWait
  | CallRestore
  | CallSessionClose
  | CallClientClose

text \<open>Lines 31 to 51: the authentication method of the key, none when no key is given.\<close>

definition key_auth :: "World \<Rightarrow> SSHConfig \<Rightarrow> error + AuthMethod list" where
  "key_auth w cfg =
     (if length (SSHConfig.Key cfg) > 0 then
        (case ParsePrivateKey w (SSHConfig.Key cfg) of
           Inr signer \<Rightarrow> Inr [ssh_PublicKeys signer]
         | Inl err \<Rightarrow>
             if Passphrase cfg \<noteq> '''' then
               (case ParseRawPrivateKeyWithPassphrase w (SSHConfig.Key cfg) (Passphrase cfg) of
                  Inl err' \<Rightarrow>
                    Inl (WrapError ''failed to parse private key with passphrase: '' err')
                | Inr rawKey \<Rightarrow>
                    (case NewSignerFromKey w rawKey of
                       Inl err' \<Rightarrow>
                         Inl (WrapError ''failed to create signer from parsed key: '' err')
                     | Inr signer \<Rightarrow> Inr [ssh_PublicKeys signer]))
             else Inl (WrapError ''failed to parse private key: '' err))
      else Inr [])"

text \<open>Lines 28 to 58: the key's method first, then the password's when one is given.\<close>

definition authMethods :: "World \<Rightarrow> SSHConfig \<Rightarrow> error + AuthMethod list" where
  "authMethods w cfg =
     (case key_auth w cfg of
        Inl err \<Rightarrow> Inl err
      | Inr ms \<Rightarrow>
          Inr (if SSHConfig.Password cfg \<noteq> ''''
               then ms @ [ssh_Password (SSHConfig.Password cfg)] else ms))"

text \<open>Lines 28 to 62: the methods, refused when there is none.\<close>

definition prepare_auth :: "World \<Rightarrow> SSHConfig \<Rightarrow> error + AuthMethod list" where
  "prepare_auth w cfg =
     (case authMethods w cfg of
        Inl err \<Rightarrow> Inl err
      | Inr ms \<Rightarrow>
          if length ms = 0
          then Inl (ErrorString
                 ''no authentication methods successfully configured (no valid key or password provided)'')
          else Inr ms)"

text \<open>Lines 65 to 74: the \<open>ssh.ClientConfig\<close>.\<close>

definition client_config :: "SSHConfig \<Rightarrow> AuthMethod list \<Rightarrow> ClientConfig" where
  "client_config cfg ms =
     \<lparr>ClientConfig.User = SSHConfig.User cfg, Auth = ms,
      HostKeyCallback = InsecureIgnoreHostKey\<rparr>"

text \<open>Lines 149 to 161: what is returned after \<open>session.Wait()\<close>.\<close>

definition wait_session :: "World \<Rightarrow> error option" where
  "wait_session w =
     (case Wait w of
        None \<Rightarrow> None
      | Some (ExitError st m) \<Rightarrow> None
      | Some err \<Rightarrow> Some (WrapError ''SSH session ended with unexpected error: '' err))"

text \<open>Lines 132 to 161: start the shell and wait for it.\<close>

definition start_shell :: "World \<Rightarrow> error option \<times> call list" where
  "start_shell w =
     (case Shell w of
        Some err \<Rightarrow> (Some (WrapError ''failed to start remote shell: '' err), [CallShell])
      | None \<Rightarrow> (wait_session w, [CallShell, CallWait]))"

text \<open>The terminal modes of lines 117 to 121.\<close>

definition modes :: "nat \<Rightarrow> nat option" where
  "modes = [ECHO \<mapsto> 1, TTY_OP_ISPEED \<mapsto> 14400, TTY_OP_OSPEED \<mapsto> 14400]"

text \<open>
  Lines 94 to 161, with a session open: on a terminal, raw mode (its restore deferred
  when it succeeded), the size with its default, and the pseudo-terminal request; then
  the shell. Without a terminal, the shell only.
\<close>

definition run_session :: "World \<Rightarrow> error option \<times> call list" where
  "run_session w =
     (if IsTerminal w then
        (let deferred = (case MakeRaw w of Some err \<Rightarrow> [] | None \<Rightarrow> [CallRestore]);
             size = (case GetSize w of Inl err \<Rightarrow> (80, 24) | Inr (width, height) \<Rightarrow> (width, height));
             width = fst size;
             height = snd size;
             made = [CallMakeRaw, CallGetSize, CallRequestPty ''xterm-256color'' height width modes]
         in case RequestPty w ''xterm-256color'' height width modes of
              Some err \<Rightarrow> (Some (WrapError ''failed to request PTY: '' err), made @ deferred)
            | None \<Rightarrow> (fst (start_shell w), made @ snd (start_shell w) @ deferred))
      else start_shell w)"

text \<open>
  \<open>ConnectAndShell\<close>: the returned error (\<open>None\<close> is nil) and the calls it made.
\<close>

definition ConnectAndShell :: "World \<Rightarrow> SSHConfig \<Rightarrow> error option \<times> call list" where
  "ConnectAndShell w cfg =
     (case prepare_auth w cfg of
        Inl err \<Rightarrow> (Some err, [])
      | Inr ms \<Rightarrow>
          (let config = client_config cfg ms
           in case Dial w (Address cfg) config of
                Some err \<Rightarrow>
                  (Some (WrapError (''failed to dial SSH server '' @ Address cfg @ '': '') err),
                   [CallDial (Address cfg) config])
              | None \<Rightarrow>
                  (case NewSession w of
                     Some err \<Rightarrow>
                       (Some (WrapError ''failed to create SSH session: '' err),
                        [CallDial (Address cfg) config, CallNewSession, CallClientClose])
                   | None \<Rightarrow>
                       (fst (run_session w),
                        [CallDial (Address cfg) config, CallNewSession] @ snd (run_session w)
                        @ [CallSessionClose, CallClientClose]))))"

text \<open>
  The test double of the client tests: the mock SSH server accepts every dial, opens a
  session and runs a shell that ends without an exit status; standard input is a pipe,
  not a terminal. Of the two test keys, \<open>''PLAIN KEY''\<close> parses as it is and
  \<open>''ENCRYPTED KEY''\<close> parses only with the passphrase \<open>''testpass''\<close>.
\<close>

definition mockWorld :: World where
  "mockWorld =
     \<lparr>ParsePrivateKey = (\<lambda>key.
         if key = ''PLAIN KEY'' then Inr (Signer ''plain'')
         else if key = ''ENCRYPTED KEY''
         then Inl (ErrorString ''ssh: this private key is passphrase protected'')
         else Inl (ErrorString ''ssh: no key found'')),
      ParseRawPrivateKeyWithPassphrase = (\<lambda>key passphrase.
         if key = ''ENCRYPTED KEY'' then
           (if passphrase = ''testpass'' then Inr (RawKey ''encrypted'')
            else Inl (ErrorString ''x509: decryption password incorrect''))
         else if key = ''PLAIN KEY'' then Inl (ErrorString ''ssh: not an encrypted key'')
         else Inl (ErrorString ''ssh: no key found'')),
      NewSignerFromKey = (\<lambda>rawKey. case rawKey of RawKey k \<Rightarrow> Inr (Signer k)),
      Dial = (\<lambda>address config. None),
      NewSession = None,
      IsTerminal = False,
      MakeRaw = None,
      GetSize = Inr (120, 40),
      RequestPty = (\<lambda>term h w ms. None),
      Shell = None,
      Wait = None\<rparr>"

section \<open>Properties of the secret store operations\<close>

subsection \<open>Field extraction\<close>

lemma jsonTag_of_tags:
  "map jsonTag_of VaultSecret_tags =
     [''hostname'', ''ip'', ''port'', ''username'', ''password'', ''key'', ''key_passphrase'']"
  by (simp add: VaultSecret_tags_def jsonTag_of_def Cut_def)

lemma map_fields_unroll:
  "map_fields d 0 VaultSecret_tags s =
     copy_field d 6 ''key_passphrase'' (copy_field d 5 ''key'' (copy_field d 4 ''password''
       (copy_field d 3 ''username'' (copy_field d 2 ''port'' (copy_field d 1 ''ip''
         (copy_field d 0 ''hostname'' s))))))"
  by (simp add: VaultSecret_tags_def jsonTag_of_def Cut_def eval_nat_numeral)

lemma Password_copy_field:
  "VaultSecret.Password (copy_field d i k s) =
     (if i = 4 then (case d k of Some (JStr v) \<Rightarrow> v | _ \<Rightarrow> VaultSecret.Password s)
      else VaultSecret.Password s)"
  by (simp add: copy_field_def SetString_def split: option.splits jval.splits)

lemma Key_copy_field:
  "VaultSecret.Key (copy_field d i k s) =
     (if i = 5 then (case d k of Some (JStr v) \<Rightarrow> v | _ \<Rightarrow> VaultSecret.Key s)
      else VaultSecret.Key s)"
  by (simp add: copy_field_def SetString_def split: option.splits jval.splits)

lemma Password_map_fields:
  "VaultSecret.Password (map_fields d 0 VaultSecret_tags VaultSecret_zero) =
     string_at d ''password''"
  by (simp add: map_fields_unroll Password_copy_field string_at_def VaultSecret_zero_def
      split: option.splits jval.splits)

lemma Key_map_fields:
  "VaultSecret.Key (map_fields d 0 VaultSecret_tags VaultSecret_zero) = string_at d ''key''"
  by (simp add: map_fields_unroll Key_copy_field string_at_def VaultSecret_zero_def
      split: option.splits jval.splits)

lemma map_fields_data_irrelevant:
  "map_fields (d(''data'' := x)) 0 VaultSecret_tags s = map_fields d 0 VaultSecret_tags s"
  by (simp add: map_fields_unroll copy_field_def)

lemma sublist_quoted: "sublist s (p @ quoted s @ r)"
proof -
  have "p @ quoted s @ r = (p @ [CHR 0x27]) @ s @ ([CHR 0x27] @ r)"
    by (simp add: quoted_def)
  then show ?thesis
    by (metis sublist_appendI)
qed

lemma ReadPath_fetched:
  assumes "logical_Read c path = Inr (Some secret)" and "Data secret = Some d"
  shows "ReadPath (Some c) path =
           (case select_data d of
              None \<Rightarrow> Inl (ErrorString (''secret data at path '' @ quoted path @
                            '' is not in expected KV v2 format (missing 'data' map) or compatible KV v1 format''))
            | Some secretData \<Rightarrow> parse_secret path secretData)"
  using assms by (simp add: ReadPath_def)


subsection \<open>The credential check of \<open>ReadPath\<close>\<close>

text \<open>
  Claim C3. Take a record that was fetched (the store returned a secret with a data map)
  and whose shape was resolved to the map \<open>sd\<close> the fields are read from. When the
  stored \<open>password\<close> and \<open>key\<close> are both empty (absent, not a string, or the empty
  string), \<open>ReadPath\<close> fails with the missing-credential error naming the path. When
  exactly one of them is non-empty, \<open>ReadPath\<close> succeeds, the returned record carries
  that value, and its other credential field is the empty string.
\<close>

theorem ReadPath_credential_check:
  assumes "logical_Read c path = Inr (Some secret)" and "Data secret = Some d"
    and "select_data d = Some sd"
  shows "(string_at sd ''password'' = '''' \<and> string_at sd ''key'' = '''' \<longrightarrow>
            ReadPath (Some c) path =
              Inl (ErrorString (''either 'password' or 'key' must be provided in secret at path ''
                                @ quoted path)))
       \<and> (string_at sd ''password'' \<noteq> '''' \<and> string_at sd ''key'' = '''' \<longrightarrow>
            (\<exists>s. ReadPath (Some c) path = Inr s \<and>
                 VaultSecret.Password s = string_at sd ''password'' \<and> VaultSecret.Key s = ''''))
       \<and> (string_at sd ''password'' = '''' \<and> string_at sd ''key'' \<noteq> '''' \<longrightarrow>
            (\<exists>s. ReadPath (Some c) path = Inr s \<and>
                 VaultSecret.Key s = string_at sd ''key'' \<and> VaultSecret.Password s = ''''))"
  using assms
  by (simp add: ReadPath_fetched parse_secret_def Let_def Password_map_fields Key_map_fields)

theorem ReadPath_credential_check_witness:
  "ReadPath (Some (newTestVaultClient (Inr (Some \<lparr>Data = Some [''data'' \<mapsto>
       JMap [''hostname'' \<mapsto> JStr ''testhost_no_creds'', ''username'' \<mapsto> JStr ''u'']]\<rparr>))))
     ''test/secret/no_creds'' =
     Inl (ErrorString (''either 'password' or 'key' must be provided in secret at path ''
                        @ quoted ''test/secret/no_creds''))
   \<and> (\<exists>s. ReadPath (Some (newTestVaultClient (Inr (Some \<lparr>Data = Some [''data'' \<mapsto>
          JMap [''hostname'' \<mapsto> JStr ''testhost_pw_only'', ''password'' \<mapsto> JStr ''testpass_only'']]\<rparr>))))
          ''test/secret/pw_only'' = Inr s \<and> VaultSecret.Password s = ''testpass_only'' \<and> VaultSecret.Key s = '''')
   \<and> (\<exists>s. ReadPath (Some (newTestVaultClient (Inr (Some \<lparr>Data = Some [''data'' \<mapsto>
          JMap [''hostname'' \<mapsto> JStr ''testhost_key_only'', ''key'' \<mapsto> JStr ''testkeypath_only'']]\<rparr>))))
          ''test/secret/key_only'' = Inr s \<and> VaultSecret.Key s = ''testkeypath_only'' \<and> VaultSecret.Password s = '''')"
  using
    ReadPath_credential_check [of
      "newTestVaultClient (Inr (Some \<lparr>Data = Some [''data'' \<mapsto>
         JMap [''hostname'' \<mapsto> JStr ''testhost_no_creds'', ''username'' \<mapsto> JStr ''u'']]\<rparr>))"
      "''test/secret/no_creds''"
      "\<lparr>Data = Some [''data'' \<mapsto>
         JMap [''hostname'' \<mapsto> JStr ''testhost_no_creds'', ''username'' \<mapsto> JStr ''u'']]\<rparr>"
      "[''data'' \<mapsto> JMap [''hostname'' \<mapsto> JStr ''testhost_no_creds'', ''username'' \<mapsto> JStr ''u'']]"
      "[''hostname'' \<mapsto> JStr ''testhost_no_creds'', ''username'' \<mapsto> JStr ''u'']"]
    ReadPath_credential_check [of
      "newTestVaultClient (Inr (Some \<lparr>Data = Some [''data'' \<mapsto>
         JMap [''hostname'' \<mapsto> JStr ''testhost_pw_only'', ''password'' \<mapsto> JStr ''testpass_only'']]\<rparr>))"
      "''test/secret/pw_only''"
      "\<lparr>Data = Some [''data'' \<mapsto>
         JMap [''hostname'' \<mapsto> JStr ''testhost_pw_only'', ''password'' \<mapsto> JStr ''testpass_only'']]\<rparr>"
      "[''data'' \<mapsto> JMap [''hostname'' \<mapsto> JStr ''testhost_pw_only'', ''password'' \<mapsto> JStr ''testpass_only'']]"
      "[''hostname'' \<mapsto> JStr ''testhost_pw_only'', ''password'' \<mapsto> JStr ''testpass_only'']"]
    ReadPath_credential_check [of
      "newTestVaultClient (Inr (Some \<lparr>Data = Some [''data'' \<mapsto>
         JMap [''hostname'' \<mapsto> JStr ''testhost_key_only'', ''key'' \<mapsto> JStr ''testkeypath_only'']]\<rparr>))"
      "''test/secret/key_only''"
      "\<lparr>Data = Some [''data'' \<mapsto>
         JMap [''hostname'' \<mapsto> JStr ''testhost_key_only'', ''key'' \<mapsto> JStr ''testkeypath_only'']]\<rparr>"
      "[''data'' \<mapsto> JMap [''hostname'' \<mapsto> JStr ''testhost_key_only'', ''key'' \<mapsto> JStr ''testkeypath_only'']]"
      "[''hostname'' \<mapsto> JStr ''testhost_key_only'', ''key'' \<mapsto> JStr ''testkeypath_only'']"]
  by (simp add: newTestVaultClient_def select_data_def string_at_def)

subsection \<open>The shape of a secret\<close>

text \<open>
  Claim C4, as the claim states it, fails: a top-level map whose \<open>hostname\<close> is the
  empty string is accepted as the flat shape, since the check of \<open>ReadPath\<close> is that
  the entry is a string, not that it is non-empty. The record below has an empty
  hostname and a password; \<open>ReadPath\<close> returns it.
\<close>

theorem ReadPath_flat_empty_hostname:
  "ReadPath
     (Some (newTestVaultClient (Inr (Some \<lparr>Data = Some
        [''hostname'' \<mapsto> JStr '''', ''password'' \<mapsto> JStr ''kv1password'']\<rparr>))))
     ''test/secret/kv1'' =
   Inr \<lparr>Hostname = '''', IP = '''', VaultSecret.Port = '''', Username = '''',
        VaultSecret.Password = ''kv1password'', VaultSecret.Key = '''', KeyPassphrase = ''''\<rparr>"
  by (simp add: ReadPath_def newTestVaultClient_def select_data_def parse_secret_def
      map_fields_unroll copy_field_def SetString_def VaultSecret_zero_def)

text \<open>
  Claim C4, amended. For a fetched record with no \<open>data\<close> entry, \<open>ReadPath\<close> reads the
  fields from the top-level map (the flat shape) when that map holds a string under
  \<open>hostname\<close>, empty or not; when it holds no string there, \<open>ReadPath\<close> fails with the
  unsupported-shape error naming the path.
\<close>

theorem ReadPath_flat_fallback:
  assumes "logical_Read c path = Inr (Some secret)" and "Data secret = Some d"
    and "d ''data'' = None"
  shows "((\<exists>h. d ''hostname'' = Some (JStr h)) \<longrightarrow>
            ReadPath (Some c) path = parse_secret path d)
       \<and> ((\<forall>h. d ''hostname'' \<noteq> Some (JStr h)) \<longrightarrow>
            ReadPath (Some c) path =
              Inl (ErrorString (''secret data at path '' @ quoted path @
                '' is not in expected KV v2 format (missing 'data' map) or compatible KV v1 format'')))"
  using assms
  by (auto simp add: ReadPath_fetched select_data_def split: option.splits jval.splits)

theorem ReadPath_flat_fallback_witness:
  "ReadPath
     (Some (newTestVaultClient (Inr (Some \<lparr>Data = Some
        [''hostname'' \<mapsto> JStr ''kv1host'', ''password'' \<mapsto> JStr ''kv1password'']\<rparr>))))
     ''test/secret/kv1'' =
   parse_secret ''test/secret/kv1''
     [''hostname'' \<mapsto> JStr ''kv1host'', ''password'' \<mapsto> JStr ''kv1password'']
   \<and> ReadPath
     (Some (newTestVaultClient (Inr (Some \<lparr>Data = Some
        [''username'' \<mapsto> JStr ''kv1user'', ''password'' \<mapsto> JStr ''kv1password'']\<rparr>))))
     ''test/secret/kv1'' =
   Inl (ErrorString (''secret data at path '' @ quoted ''test/secret/kv1'' @
      '' is not in expected KV v2 format (missing 'data' map) or compatible KV v1 format''))"
  using
    ReadPath_flat_fallback [of
      "newTestVaultClient (Inr (Some \<lparr>Data = Some
        [''hostname'' \<mapsto> JStr ''kv1host'', ''password'' \<mapsto> JStr ''kv1password'']\<rparr>))"
      "''test/secret/kv1''"
      "\<lparr>Data = Some [''hostname'' \<mapsto> JStr ''kv1host'', ''password'' \<mapsto> JStr ''kv1password'']\<rparr>"
      "[''hostname'' \<mapsto> JStr ''kv1host'', ''password'' \<mapsto> JStr ''kv1password'']"]
    ReadPath_flat_fallback [of
      "newTestVaultClient (Inr (Some \<lparr>Data = Some
        [''username'' \<mapsto> JStr ''kv1user'', ''password'' \<mapsto> JStr ''kv1password'']\<rparr>))"
      "''test/secret/kv1''"
      "\<lparr>Data = Some [''username'' \<mapsto> JStr ''kv1user'', ''password'' \<mapsto> JStr ''kv1password'']\<rparr>"
      "[''username'' \<mapsto> JStr ''kv1user'', ''password'' \<mapsto> JStr ''kv1password'']"]
  by (simp add: newTestVaultClient_def)

text \<open>
  Claim C5. Let \<open>m\<close> hold the field values of a record: a string under \<open>hostname\<close>,
  which every record carries, and, being fields only, nothing under \<open>data\<close>. A record
  that stores \<open>m\<close> under its \<open>data\<close> entry (nested shape) and a record that is \<open>m\<close>
  itself (flat shape) resolve to the same result of \<open>ReadPath\<close>: the same
  \<open>VaultSecret\<close>, or the same error.
\<close>

theorem ReadPath_shape_agnostic:
  assumes "logical_Read c1 path = Inr (Some s1)" and "Data s1 = Some d1"
    and "d1 ''data'' = Some (JMap m)"
    and "logical_Read c2 path = Inr (Some s2)" and "Data s2 = Some m"
    and "m ''data'' = None"
    and "m ''hostname'' = Some (JStr h)"
  shows "ReadPath (Some c1) path = ReadPath (Some c2) path"
  using assms by (simp add: ReadPath_fetched select_data_def)

theorem ReadPath_shape_agnostic_witness:
  "ReadPath
     (Some (newTestVaultClient (Inr (Some \<lparr>Data = Some [''data'' \<mapsto> JMap
        [''hostname'' \<mapsto> JStr ''kv1host'', ''password'' \<mapsto> JStr ''kv1password'']]\<rparr>))))
     ''test/secret/kv1'' =
   ReadPath
     (Some (newTestVaultClient (Inr (Some \<lparr>Data = Some
        [''hostname'' \<mapsto> JStr ''kv1host'', ''password'' \<mapsto> JStr ''kv1password'']\<rparr>))))
     ''test/secret/kv1''"
  using
    ReadPath_shape_agnostic [of
      "newTestVaultClient (Inr (Some \<lparr>Data = Some [''data'' \<mapsto> JMap
        [''hostname'' \<mapsto> JStr ''kv1host'', ''password'' \<mapsto> JStr ''kv1password'']]\<rparr>))"
      "''test/secret/kv1''"
      "\<lparr>Data = Some [''data'' \<mapsto> JMap
        [''hostname'' \<mapsto> JStr ''kv1host'', ''password'' \<mapsto> JStr ''kv1password'']]\<rparr>"
      "[''data'' \<mapsto> JMap [''hostname'' \<mapsto> JStr ''kv1host'', ''password'' \<mapsto> JStr ''kv1password'']]"
      "[''hostname'' \<mapsto> JStr ''kv1host'', ''password'' \<mapsto> JStr ''kv1password'']"
      "newTestVaultClient (Inr (Some \<lparr>Data = Some
        [''hostname'' \<mapsto> JStr ''kv1host'', ''password'' \<mapsto> JStr ''kv1password'']\<rparr>))"
      "\<lparr>Data = Some [''hostname'' \<mapsto> JStr ''kv1host'', ''password'' \<mapsto> JStr ''kv1password'']\<rparr>"
      "''kv1host''"]
  by (simp add: newTestVaultClient_def)

text \<open>
  Claim C10. When the \<open>data\<close> entry of a fetched record holds a value that is not a
  map, \<open>ReadPath\<close> returns what it returns for the same record without that entry:
  the fields are read from the top-level map when its \<open>hostname\<close> is a string, and
  the unsupported-shape error is returned otherwise.
\<close>

theorem ReadPath_data_not_map:
  assumes "\<forall>m. v \<noteq> JMap m"
    and "logical_Read c1 path = Inr (Some s1)" and "Data s1 = Some (d(''data'' \<mapsto> v))"
    and "logical_Read c2 path = Inr (Some s2)" and "Data s2 = Some (d(''data'' := None))"
  shows "ReadPath (Some c1) path = ReadPath (Some c2) path
       \<and> ReadPath (Some c1) path =
           (case d ''hostname'' of
              Some (JStr h) \<Rightarrow> parse_secret path (d(''data'' \<mapsto> v))
            | _ \<Rightarrow> Inl (ErrorString (''secret data at path '' @ quoted path @
                '' is not in expected KV v2 format (missing 'data' map) or compatible KV v1 format'')))"
proof -
  have sel1: "select_data (d(''data'' \<mapsto> v)) =
      (case d ''hostname'' of Some (JStr h) \<Rightarrow> Some (d(''data'' \<mapsto> v)) | _ \<Rightarrow> None)"
    using assms(1) by (cases v) (auto simp add: select_data_def)
  have sel2: "select_data (d(''data'' := None)) =
      (case d ''hostname'' of Some (JStr h) \<Rightarrow> Some (d(''data'' := None)) | _ \<Rightarrow> None)"
    by (simp add: select_data_def)
  have same: "parse_secret path (d(''data'' \<mapsto> v)) = parse_secret path (d(''data'' := None))"
    by (simp add: parse_secret_def map_fields_data_irrelevant)
  have r1: "ReadPath (Some c1) path =
           (case d ''hostname'' of
              Some (JStr h) \<Rightarrow> parse_secret path (d(''data'' \<mapsto> v))
            | _ \<Rightarrow> Inl (ErrorString (''secret data at path '' @ quoted path @
                '' is not in expected KV v2 format (missing 'data' map) or compatible KV v1 format'')))"
    using assms(2,3) by (simp add: ReadPath_fetched sel1 split: option.splits jval.splits)
  have r2: "ReadPath (Some c2) path =
           (case d ''hostname'' of
              Some (JStr h) \<Rightarrow> parse_secret path (d(''data'' := None))
            | _ \<Rightarrow> Inl (ErrorString (''secret data at path '' @ quoted path @
                '' is not in expected KV v2 format (missing 'data' map) or compatible KV v1 format'')))"
    using assms(4,5) by (simp add: ReadPath_fetched sel2 split: option.splits jval.splits)
  show ?thesis
    using r1 r2 same by (simp split: option.splits jval.splits)
qed

theorem ReadPath_data_not_map_witness:
  "ReadPath
     (Some (newTestVaultClient (Inr (Some \<lparr>Data = Some
        [''hostname'' \<mapsto> JStr ''kv1host'', ''data'' \<mapsto> JStr ''not_a_map'']\<rparr>))))
     ''test/secret/malformed_data'' =
   ReadPath
     (Some (newTestVaultClient (Inr (Some \<lparr>Data = Some
        ([''hostname'' \<mapsto> JStr ''kv1host''](''data'' := None))\<rparr>))))
     ''test/secret/malformed_data''
   \<and> ReadPath
     (Some (newTestVaultClient (Inr (Some \<lparr>Data = Some
        [''hostname'' \<mapsto> JStr ''kv1host'', ''data'' \<mapsto> JStr ''not_a_map'']\<rparr>))))
     ''test/secret/malformed_data'' =
   parse_secret ''test/secret/malformed_data''
     [''hostname'' \<mapsto> JStr ''kv1host'', ''data'' \<mapsto> JStr ''not_a_map'']"
proof -
  let ?d = "[''hostname'' \<mapsto> JStr ''kv1host'']"
  let ?c1 = "newTestVaultClient (Inr (Some \<lparr>Data = Some (?d(''data'' \<mapsto> JStr ''not_a_map''))\<rparr>))"
  let ?c2 = "newTestVaultClient (Inr (Some \<lparr>Data = Some (?d(''data'' := None))\<rparr>))"
  have v: "\<forall>m. JStr ''not_a_map'' \<noteq> JMap m"
    by simp
  have r1: "logical_Read ?c1 ''test/secret/malformed_data'' =
      Inr (Some \<lparr>Data = Some (?d(''data'' \<mapsto> JStr ''not_a_map''))\<rparr>)"
    by (simp add: newTestVaultClient_def)
  have r2: "logical_Read ?c2 ''test/secret/malformed_data'' =
      Inr (Some \<lparr>Data = Some (?d(''data'' := None))\<rparr>)"
    by (simp add: newTestVaultClient_def)
  have d1: "Data \<lparr>Data = Some (?d(''data'' \<mapsto> JStr ''not_a_map''))\<rparr> =
      Some (?d(''data'' \<mapsto> JStr ''not_a_map''))"
    by simp
  have d2: "Data \<lparr>Data = Some (?d(''data'' := None))\<rparr> = Some (?d(''data'' := None))"
    by simp
  have h: "?d ''hostname'' = Some (JStr ''kv1host'')"
    by simp
  note w = ReadPath_data_not_map [OF v r1 d1 r2 d2]
  have "ReadPath (Some ?c1) ''test/secret/malformed_data'' =
      parse_secret ''test/secret/malformed_data'' (?d(''data'' \<mapsto> JStr ''not_a_map''))"
    using w [THEN conjunct2] by (simp only: h option.case jval.case)
  with w [THEN conjunct1] show ?thesis
    by (intro conjI)
qed

subsection \<open>Listing a path\<close>

lemma sublist_keys_message:
  "sublist ''keys'' (''failed to parse keys from path '' @ quoted path @
      '': 'keys' field is not a []interface{}'')"
proof -
  have "''failed to parse keys from path '' @ quoted path @ '': 'keys' field is not a []interface{}''
        = ''failed to parse '' @ ''keys'' @ ('' from path '' @ quoted path @
            '': 'keys' field is not a []interface{}'')"
    by simp
  then show ?thesis
    by (metis sublist_appendI)
qed

lemma ListPath_listed:
  assumes "logical_List c path = Inr (Some secret)" and "Data secret = Some d"
  shows "ListPath (Some c) path =
           (case d ''keys'' of
              None \<Rightarrow> Inr []
            | Some JNull \<Rightarrow> Inr []
            | Some (JList keysInterface) \<Rightarrow> parse_keys keysInterface []
            | Some _ \<Rightarrow>
                Inl (ErrorString (''failed to parse keys from path '' @ quoted path @
                       '': 'keys' field is not a []interface{}'')))"
  using assms by (simp add: ListPath_def)

text \<open>
  Claim C9, as the claim states it, fails for a path that does not exist. The Vault
  client answers the listing of such a path, a 404 with a JSON body, with no secret and
  no error, as it does for a path without children; \<open>ListPath\<close> then returns the empty
  list and no error, not an error naming the path.
\<close>

theorem ListPath_missing_path_is_empty:
  "ListPath (Some (newTestVaultClient (Inr None))) ''test/nonexistent/path'' = Inr []"
  by (simp add: ListPath_def newTestVaultClient_def)

text \<open>
  Claim C9, amended. \<open>ListPath\<close> returns the empty list and no error when the store
  answers with no secret (a path without children, or one that does not exist), with a
  secret without data, or with data whose \<open>keys\<close> entry is missing, nil or an empty
  list. When the store's list call itself returns an error (the store cannot be reached,
  or its answer cannot be decoded), \<open>ListPath\<close> returns an error whose message contains
  the path and which wraps the store's error. When the \<open>keys\<close> entry holds a value that
  is neither nil nor a list, \<open>ListPath\<close> returns an error whose message contains
  \<open>keys\<close> and the path.
\<close>

theorem ListPath_outcomes:
  "(logical_List c path = Inr None \<longrightarrow> ListPath (Some c) path = Inr [])
 \<and> (logical_List c path = Inr (Some secret) \<and> Data secret = None \<longrightarrow>
       ListPath (Some c) path = Inr [])
 \<and> (logical_List c path = Inr (Some secret) \<and> Data secret = Some d \<and>
      (d ''keys'' = None \<or> d ''keys'' = Some JNull \<or> d ''keys'' = Some (JList [])) \<longrightarrow>
       ListPath (Some c) path = Inr [])
 \<and> (logical_List c path = Inl err \<longrightarrow>
       (\<exists>e. ListPath (Some c) path = Inl e \<and> sublist path (Error e) \<and> Unwrap e = Some err))
 \<and> (logical_List c path = Inr (Some secret) \<and> Data secret = Some d \<and>
      d ''keys'' = Some v \<and> v \<noteq> JNull \<and> (\<forall>ks. v \<noteq> JList ks) \<longrightarrow>
       (\<exists>e. ListPath (Some c) path = Inl e \<and> sublist ''keys'' (Error e) \<and>
            sublist path (Error e)))"
proof (intro conjI impI)
  assume "logical_List c path = Inr None"
  then show "ListPath (Some c) path = Inr []"
    by (simp add: ListPath_def)
next
  assume "logical_List c path = Inr (Some secret) \<and> Data secret = None"
  then show "ListPath (Some c) path = Inr []"
    by (simp add: ListPath_def)
next
  assume "logical_List c path = Inr (Some secret) \<and> Data secret = Some d \<and>
      (d ''keys'' = None \<or> d ''keys'' = Some JNull \<or> d ''keys'' = Some (JList []))"
  then show "ListPath (Some c) path = Inr []"
    by (auto simp add: ListPath_listed)
next
  assume "logical_List c path = Inl err"
  then have "ListPath (Some c) path =
      Inl (WrapError (''failed to list path '' @ quoted path @ '': '') err)"
    by (simp add: ListPath_def)
  moreover have "sublist path
      (Error (WrapError (''failed to list path '' @ quoted path @ '': '') err))"
    using sublist_quoted [of path "''failed to list path ''" "'': '' @ Error err"] by simp
  ultimately show "\<exists>e. ListPath (Some c) path = Inl e \<and> sublist path (Error e) \<and>
      Unwrap e = Some err"
    by simp
next
  assume a: "logical_List c path = Inr (Some secret) \<and> Data secret = Some d \<and>
      d ''keys'' = Some v \<and> v \<noteq> JNull \<and> (\<forall>ks. v \<noteq> JList ks)"
  then have "ListPath (Some c) path =
      Inl (ErrorString (''failed to parse keys from path '' @ quoted path @
             '': 'keys' field is not a []interface{}''))"
    by (cases v) (simp_all add: ListPath_listed)
  moreover have "sublist path (''failed to parse keys from path '' @ quoted path @
             '': 'keys' field is not a []interface{}'')"
    by (rule sublist_quoted)
  ultimately show "\<exists>e. ListPath (Some c) path = Inl e \<and> sublist ''keys'' (Error e) \<and>
      sublist path (Error e)"
    using sublist_keys_message [of path] by simp
qed

theorem ListPath_outcomes_witness:
  "ListPath (Some (newTestVaultClient (Inr (Some \<lparr>Data = Some [''keys'' \<mapsto> JList []]\<rparr>))))
     ''test/empty/path'' = Inr []
   \<and> ListPath (Some (newTestVaultClient (Inr None))) ''test/empty/path'' = Inr []
   \<and> (\<exists>e. ListPath (Some (newTestVaultClient (Inl (ErrorString ''dial tcp 127.0.0.1:8200: connect: connection refused''))))
            ''test/unreachable/path'' = Inl e
          \<and> sublist ''test/unreachable/path'' (Error e)
          \<and> Unwrap e = Some (ErrorString ''dial tcp 127.0.0.1:8200: connect: connection refused''))
   \<and> (\<exists>e. ListPath (Some (newTestVaultClient (Inr (Some
              \<lparr>Data = Some [''keys'' \<mapsto> JStr ''not_a_slice'']\<rparr>))))
            ''test/malformed/path'' = Inl e
          \<and> sublist ''keys'' (Error e) \<and> sublist ''test/malformed/path'' (Error e))"
  using
    ListPath_outcomes [of
      "newTestVaultClient (Inr (Some \<lparr>Data = Some [''keys'' \<mapsto> JList []]\<rparr>))"
      "''test/empty/path''" "\<lparr>Data = Some [''keys'' \<mapsto> JList []]\<rparr>"
      "[''keys'' \<mapsto> JList []]" "ErrorString ''dial tcp 127.0.0.1:8200: connect: connection refused''" "JList []"]
    ListPath_outcomes [of
      "newTestVaultClient (Inr None)"
      "''test/empty/path''" "\<lparr>Data = None\<rparr>" "Map.empty" "ErrorString ''dial tcp 127.0.0.1:8200: connect: connection refused''" "JNull"]
    ListPath_outcomes [of
      "newTestVaultClient (Inl (ErrorString ''dial tcp 127.0.0.1:8200: connect: connection refused''))"
      "''test/unreachable/path''" "\<lparr>Data = None\<rparr>" "Map.empty"
      "ErrorString ''dial tcp 127.0.0.1:8200: connect: connection refused''" "JNull"]
    ListPath_outcomes [of
      "newTestVaultClient (Inr (Some \<lparr>Data = Some [''keys'' \<mapsto> JStr ''not_a_slice'']\<rparr>))"
      "''test/malformed/path''" "\<lparr>Data = Some [''keys'' \<mapsto> JStr ''not_a_slice'']\<rparr>"
      "[''keys'' \<mapsto> JStr ''not_a_slice'']" "ErrorString ''dial tcp 127.0.0.1:8200: connect: connection refused''"
      "JStr ''not_a_slice''"]
  by (simp add: newTestVaultClient_def)

section \<open>Properties of the shell session\<close>

subsection \<open>Authentication methods\<close>

lemma ConnectAndShell_auth_error:
  "prepare_auth w cfg = Inl err \<Longrightarrow> ConnectAndShell w cfg = (Some err, [])"
  by (simp add: ConnectAndShell_def)

lemma key_auth_parsed:
  "SSHConfig.Key cfg \<noteq> [] \<Longrightarrow> ParsePrivateKey w (SSHConfig.Key cfg) = Inr signer \<Longrightarrow>
     key_auth w cfg = Inr [ssh_PublicKeys signer]"
  by (simp add: key_auth_def)

lemma key_auth_encrypted:
  "SSHConfig.Key cfg \<noteq> [] \<Longrightarrow> ParsePrivateKey w (SSHConfig.Key cfg) = Inl err \<Longrightarrow>
     key_auth w cfg =
       (if Passphrase cfg \<noteq> '''' then
          (case ParseRawPrivateKeyWithPassphrase w (SSHConfig.Key cfg) (Passphrase cfg) of
             Inl err' \<Rightarrow> Inl (WrapError ''failed to parse private key with passphrase: '' err')
           | Inr rawKey \<Rightarrow>
               (case NewSignerFromKey w rawKey of
                  Inl err' \<Rightarrow> Inl (WrapError ''failed to create signer from parsed key: '' err')
                | Inr signer \<Rightarrow> Inr [ssh_PublicKeys signer]))
        else Inl (WrapError ''failed to parse private key: '' err))"
  by (simp add: key_auth_def)

lemma authMethods_empty:
  "authMethods w cfg = Inr [] \<longleftrightarrow> SSHConfig.Key cfg = [] \<and> SSHConfig.Password cfg = ''''"
  by (auto simp add: authMethods_def key_auth_def split: if_splits sum.splits)

lemmas session_defs =
  ConnectAndShell_def prepare_auth_def authMethods_def key_auth_def client_config_def
  run_session_def start_shell_def wait_session_def mockWorld_def Let_def

text \<open>
  Claim C7. Let the key bytes be encrypted: they are not empty and the library's
  parser without a passphrase fails on them with \<open>err\<close>. With no passphrase,
  \<open>ConnectAndShell\<close> fails before any call with the error
  \<open>failed to parse private key\<close> wrapping \<open>err\<close>. With a passphrase the library's
  decrypting parser refuses (a wrong one), it fails before any call with the error
  \<open>failed to parse private key with passphrase\<close> wrapping the parser's error. With a
  passphrase the parser accepts and a key a signer is made from (the correct one), the
  key yields the one method \<open>ssh_PublicKeys\<close> of that signer, and the methods built are
  that method, followed by the password's method only when a password is configured.
\<close>

theorem encrypted_key_auth:
  assumes "SSHConfig.Key cfg \<noteq> []"
    and "ParsePrivateKey w (SSHConfig.Key cfg) = Inl err"
  shows "(Passphrase cfg = '''' \<longrightarrow>
            ConnectAndShell w cfg = (Some (WrapError ''failed to parse private key: '' err), []))
       \<and> (Passphrase cfg \<noteq> '''' \<and>
          ParseRawPrivateKeyWithPassphrase w (SSHConfig.Key cfg) (Passphrase cfg) = Inl err' \<longrightarrow>
            ConnectAndShell w cfg =
              (Some (WrapError ''failed to parse private key with passphrase: '' err'), []))
       \<and> (Passphrase cfg \<noteq> '''' \<and>
          ParseRawPrivateKeyWithPassphrase w (SSHConfig.Key cfg) (Passphrase cfg) = Inr rawKey \<and>
          NewSignerFromKey w rawKey = Inr signer \<longrightarrow>
            key_auth w cfg = Inr [ssh_PublicKeys signer] \<and>
            prepare_auth w cfg =
              Inr (if SSHConfig.Password cfg \<noteq> ''''
                   then [ssh_PublicKeys signer, ssh_Password (SSHConfig.Password cfg)]
                   else [ssh_PublicKeys signer]))"
  using assms
  by (simp add: ConnectAndShell_auth_error prepare_auth_def authMethods_def key_auth_encrypted)

theorem encrypted_key_auth_witness:
  "ConnectAndShell mockWorld
     \<lparr>Address = ''localhost:2222'', SSHConfig.User = ''test'', SSHConfig.Port = '''',
      SSHConfig.Key = ''ENCRYPTED KEY'', Passphrase = '''', SSHConfig.Password = ''''\<rparr> =
   (Some (WrapError ''failed to parse private key: ''
      (ErrorString ''ssh: this private key is passphrase protected'')), [])
   \<and> ConnectAndShell mockWorld
     \<lparr>Address = ''localhost:2222'', SSHConfig.User = ''test'', SSHConfig.Port = '''',
      SSHConfig.Key = ''ENCRYPTED KEY'', Passphrase = ''wrongpass'', SSHConfig.Password = ''''\<rparr> =
   (Some (WrapError ''failed to parse private key with passphrase: ''
      (ErrorString ''x509: decryption password incorrect'')), [])
   \<and> prepare_auth mockWorld
     \<lparr>Address = ''localhost:2222'', SSHConfig.User = ''test'', SSHConfig.Port = '''',
      SSHConfig.Key = ''ENCRYPTED KEY'', Passphrase = ''testpass'', SSHConfig.Password = ''''\<rparr> =
   Inr [ssh_PublicKeys (Signer ''encrypted'')]"
  using
    encrypted_key_auth [of
      "\<lparr>Address = ''localhost:2222'', SSHConfig.User = ''test'', SSHConfig.Port = '''',
        SSHConfig.Key = ''ENCRYPTED KEY'', Passphrase = '''', SSHConfig.Password = ''''\<rparr>"
      mockWorld "ErrorString ''ssh: this private key is passphrase protected''"
      "ErrorString ''x509: decryption password incorrect''" "RawKey ''encrypted''"
      "Signer ''encrypted''"]
    encrypted_key_auth [of
      "\<lparr>Address = ''localhost:2222'', SSHConfig.User = ''test'', SSHConfig.Port = '''',
        SSHConfig.Key = ''ENCRYPTED KEY'', Passphrase = ''wrongpass'', SSHConfig.Password = ''''\<rparr>"
      mockWorld "ErrorString ''ssh: this private key is passphrase protected''"
      "ErrorString ''x509: decryption password incorrect''" "RawKey ''encrypted''"
      "Signer ''encrypted''"]
    encrypted_key_auth [of
      "\<lparr>Address = ''localhost:2222'', SSHConfig.User = ''test'', SSHConfig.Port = '''',
        SSHConfig.Key = ''ENCRYPTED KEY'', Passphrase = ''testpass'', SSHConfig.Password = ''''\<rparr>"
      mockWorld "ErrorString ''ssh: this private key is passphrase protected''"
      "ErrorString ''x509: decryption password incorrect''" "RawKey ''encrypted''"
      "Signer ''encrypted''"]
  by (simp add: mockWorld_def)

text \<open>
  Claim C8. When the key parses (as it is, or with its passphrase) and the password is
  not empty, the methods built are the key's \<open>ssh_PublicKeys\<close> first and the
  password's \<open>ssh_Password\<close> second. When the sequence of methods is empty, which
  happens exactly when the key and the password are both empty, \<open>ConnectAndShell\<close>
  fails before any call with the error stating that no authentication methods were
  successfully configured.
\<close>

theorem auth_order_and_empty:
  "(SSHConfig.Key cfg \<noteq> [] \<and> ParsePrivateKey w (SSHConfig.Key cfg) = Inr signer \<and>
    SSHConfig.Password cfg \<noteq> '''' \<longrightarrow>
      prepare_auth w cfg = Inr [ssh_PublicKeys signer, ssh_Password (SSHConfig.Password cfg)])
 \<and> (SSHConfig.Key cfg \<noteq> [] \<and> ParsePrivateKey w (SSHConfig.Key cfg) = Inl err \<and>
    Passphrase cfg \<noteq> '''' \<and>
    ParseRawPrivateKeyWithPassphrase w (SSHConfig.Key cfg) (Passphrase cfg) = Inr rawKey \<and>
    NewSignerFromKey w rawKey = Inr signer \<and> SSHConfig.Password cfg \<noteq> '''' \<longrightarrow>
      prepare_auth w cfg = Inr [ssh_PublicKeys signer, ssh_Password (SSHConfig.Password cfg)])
 \<and> (authMethods w cfg = Inr [] \<longrightarrow>
      ConnectAndShell w cfg =
        (Some (ErrorString
           ''no authentication methods successfully configured (no valid key or password provided)''),
         []))
 \<and> (authMethods w cfg = Inr [] \<longleftrightarrow> SSHConfig.Key cfg = [] \<and> SSHConfig.Password cfg = '''')"
proof (intro conjI impI)
  assume "SSHConfig.Key cfg \<noteq> [] \<and> ParsePrivateKey w (SSHConfig.Key cfg) = Inr signer \<and>
    SSHConfig.Password cfg \<noteq> ''''"
  then show "prepare_auth w cfg =
      Inr [ssh_PublicKeys signer, ssh_Password (SSHConfig.Password cfg)]"
    by (simp add: prepare_auth_def authMethods_def key_auth_parsed)
next
  assume "SSHConfig.Key cfg \<noteq> [] \<and> ParsePrivateKey w (SSHConfig.Key cfg) = Inl err \<and>
    Passphrase cfg \<noteq> '''' \<and>
    ParseRawPrivateKeyWithPassphrase w (SSHConfig.Key cfg) (Passphrase cfg) = Inr rawKey \<and>
    NewSignerFromKey w rawKey = Inr signer \<and> SSHConfig.Password cfg \<noteq> ''''"
  then show "prepare_auth w cfg =
      Inr [ssh_PublicKeys signer, ssh_Password (SSHConfig.Password cfg)]"
    by (simp add: prepare_auth_def authMethods_def key_auth_encrypted)
next
  assume "authMethods w cfg = Inr []"
  then have "prepare_auth w cfg = Inl (ErrorString
      ''no authentication methods successfully configured (no valid key or password provided)'')"
    by (simp add: prepare_auth_def)
  then show "ConnectAndShell w cfg =
        (Some (ErrorString
           ''no authentication methods successfully configured (no valid key or password provided)''),
         [])"
    by (rule ConnectAndShell_auth_error)
next
  show "authMethods w cfg = Inr [] \<longleftrightarrow> SSHConfig.Key cfg = [] \<and> SSHConfig.Password cfg = ''''"
    by (rule authMethods_empty)
qed

theorem auth_order_and_empty_witness:
  "prepare_auth mockWorld
     \<lparr>Address = ''localhost:2222'', SSHConfig.User = ''test'', SSHConfig.Port = '''',
      SSHConfig.Key = ''PLAIN KEY'', Passphrase = '''', SSHConfig.Password = ''testpassword''\<rparr> =
   Inr [ssh_PublicKeys (Signer ''plain''), ssh_Password ''testpassword'']
   \<and> prepare_auth mockWorld
     \<lparr>Address = ''localhost:2222'', SSHConfig.User = ''test'', SSHConfig.Port = '''',
      SSHConfig.Key = ''ENCRYPTED KEY'', Passphrase = ''testpass'',
      SSHConfig.Password = ''testpassword''\<rparr> =
   Inr [ssh_PublicKeys (Signer ''encrypted''), ssh_Password ''testpassword'']
   \<and> ConnectAndShell mockWorld
     \<lparr>Address = ''localhost:2222'', SSHConfig.User = ''test'', SSHConfig.Port = '''',
      SSHConfig.Key = '''', Passphrase = '''', SSHConfig.Password = ''''\<rparr> =
   (Some (ErrorString
      ''no authentication methods successfully configured (no valid key or password provided)''),
    [])"
  using
    auth_order_and_empty [of
      "\<lparr>Address = ''localhost:2222'', SSHConfig.User = ''test'', SSHConfig.Port = '''',
        SSHConfig.Key = ''PLAIN KEY'', Passphrase = '''', SSHConfig.Password = ''testpassword''\<rparr>"
      mockWorld "Signer ''plain''" "ErrorString ''ssh: no key found''" "RawKey ''plain''"]
    auth_order_and_empty [of
      "\<lparr>Address = ''localhost:2222'', SSHConfig.User = ''test'', SSHConfig.Port = '''',
        SSHConfig.Key = ''ENCRYPTED KEY'', Passphrase = ''testpass'',
        SSHConfig.Password = ''testpassword''\<rparr>"
      mockWorld "Signer ''encrypted''" "ErrorString ''ssh: this private key is passphrase protected''"
      "RawKey ''encrypted''"]
    auth_order_and_empty [of
      "\<lparr>Address = ''localhost:2222'', SSHConfig.User = ''test'', SSHConfig.Port = '''',
        SSHConfig.Key = '''', Passphrase = '''', SSHConfig.Password = ''''\<rparr>"
      mockWorld "Signer ''plain''" "ErrorString ''ssh: no key found''" "RawKey ''plain''"]
  by (simp add: mockWorld_def)

subsection \<open>Host key verification\<close>

text \<open>
  Claim C1 does not hold of the code: \<open>SSHConfig\<close> has no field to choose a host key
  policy, and the client configuration built for every input carries
  \<open>InsecureIgnoreHostKey\<close>, never a known-hosts verifier. The second conjunct runs
  \<open>ConnectAndShell\<close> on a password configuration against the mock server: the dial is
  made with the accept-any-identity callback although nothing asked for it.
\<close>

theorem host_key_never_verified:
  "HostKeyCallback (client_config cfg ms) = InsecureIgnoreHostKey
   \<and> ConnectAndShell mockWorld
       \<lparr>Address = ''45.55.41.188:22'', SSHConfig.User = ''root'', SSHConfig.Port = '''',
        SSHConfig.Key = '''', Passphrase = '''', SSHConfig.Password = ''testpassword''\<rparr> =
     (None,
      [CallDial ''45.55.41.188:22''
         \<lparr>ClientConfig.User = ''root'', Auth = [ssh_Password ''testpassword''],
          HostKeyCallback = InsecureIgnoreHostKey\<rparr>,
       CallNewSession, CallShell, CallWait, CallSessionClose, CallClientClose])"
  by (simp add: session_defs)

subsection \<open>The pseudo-terminal\<close>

text \<open>
  Claim C6, as the claim states it, fails: when standard input is not a terminal, no
  pseudo-terminal is requested at all. Against the mock server, with a pipe as standard
  input, the calls made are the dial, the session, the shell, the wait and the two
  deferred closes.
\<close>

theorem no_pty_without_terminal:
  "\<not> IsTerminal mockWorld
   \<and> ConnectAndShell mockWorld
       \<lparr>Address = ''127.0.0.1:2222'', SSHConfig.User = ''keyuser'', SSHConfig.Port = '''',
        SSHConfig.Key = ''PLAIN KEY'', Passphrase = '''', SSHConfig.Password = ''''\<rparr> =
     (None,
      [CallDial ''127.0.0.1:2222''
         \<lparr>ClientConfig.User = ''keyuser'', Auth = [ssh_PublicKeys (Signer ''plain'')],
          HostKeyCallback = InsecureIgnoreHostKey\<rparr>,
       CallNewSession, CallShell, CallWait, CallSessionClose, CallClientClose])"
  by (simp add: session_defs)

lemma start_shell_no_pty: "CallRequestPty t h wd ms \<notin> set (snd (start_shell w))"
  by (simp add: start_shell_def split: option.splits)

lemma run_session_no_pty:
  "\<not> IsTerminal w \<Longrightarrow> CallRequestPty t h wd ms \<notin> set (snd (run_session w))"
  by (simp add: run_session_def start_shell_no_pty)

lemma run_session_default_size:
  "IsTerminal w \<Longrightarrow> GetSize w = Inl err \<Longrightarrow>
     CallRequestPty ''xterm-256color'' 24 80 modes \<in> set (snd (run_session w))"
  by (simp add: run_session_def Let_def split: option.splits)

lemma run_session_without_terminal:
  "\<not> IsTerminal w \<Longrightarrow> run_session w = start_shell w"
  by (simp add: run_session_def)

text \<open>
  Claim C6, amended. When standard input is not an interactive terminal,
  \<open>ConnectAndShell\<close> requests no pseudo-terminal; once the transport and the session
  are open it starts the remote shell directly on the session, with no call to the
  terminal in between, and waits for the shell when it started. When standard input is
  an interactive terminal whose size query fails, and the session was opened, it
  requests a pseudo-terminal of type \<open>xterm-256color\<close> with the default 80 columns by
  24 rows (\<open>RequestPty\<close> takes the height first).
\<close>

theorem pty_request:
  "(\<not> IsTerminal w \<longrightarrow>
      (\<forall>t h wd ms. CallRequestPty t h wd ms \<notin> set (snd (ConnectAndShell w cfg))))
 \<and> (\<not> IsTerminal w \<and> prepare_auth w cfg = Inr auth \<and>
    Dial w (Address cfg) (client_config cfg auth) = None \<and> NewSession w = None \<longrightarrow>
      ConnectAndShell w cfg =
        (case Shell w of
           Some shellErr \<Rightarrow>
             (Some (WrapError ''failed to start remote shell: '' shellErr),
              [CallDial (Address cfg) (client_config cfg auth), CallNewSession, CallShell,
               CallSessionClose, CallClientClose])
         | None \<Rightarrow>
             (wait_session w,
              [CallDial (Address cfg) (client_config cfg auth), CallNewSession, CallShell,
               CallWait, CallSessionClose, CallClientClose])))
 \<and> (IsTerminal w \<and> GetSize w = Inl err \<and> prepare_auth w cfg = Inr auth \<and>
    Dial w (Address cfg) (client_config cfg auth) = None \<and> NewSession w = None \<longrightarrow>
      CallRequestPty ''xterm-256color'' 24 80 modes \<in> set (snd (ConnectAndShell w cfg)))"
proof (intro conjI impI allI)
  fix t h wd ms
  assume "\<not> IsTerminal w"
  then show "CallRequestPty t h wd ms \<notin> set (snd (ConnectAndShell w cfg))"
    by (simp add: ConnectAndShell_def Let_def run_session_no_pty split: sum.splits option.splits)
next
  assume "\<not> IsTerminal w \<and> prepare_auth w cfg = Inr auth \<and>
    Dial w (Address cfg) (client_config cfg auth) = None \<and> NewSession w = None"
  then show "ConnectAndShell w cfg =
        (case Shell w of
           Some shellErr \<Rightarrow>
             (Some (WrapError ''failed to start remote shell: '' shellErr),
              [CallDial (Address cfg) (client_config cfg auth), CallNewSession, CallShell,
               CallSessionClose, CallClientClose])
         | None \<Rightarrow>
             (wait_session w,
              [CallDial (Address cfg) (client_config cfg auth), CallNewSession, CallShell,
               CallWait, CallSessionClose, CallClientClose]))"
    by (simp add: ConnectAndShell_def Let_def run_session_without_terminal start_shell_def
        split: option.splits)
next
  assume "IsTerminal w \<and> GetSize w = Inl err \<and> prepare_auth w cfg = Inr auth \<and>
    Dial w (Address cfg) (client_config cfg auth) = None \<and> NewSession w = None"
  then show "CallRequestPty ''xterm-256color'' 24 80 modes \<in> set (snd (ConnectAndShell w cfg))"
    by (simp add: ConnectAndShell_def Let_def run_session_default_size)
qed

theorem pty_request_witness:
  "(\<forall>t h wd ms. CallRequestPty t h wd ms \<notin> set (snd (ConnectAndShell mockWorld
       \<lparr>Address = ''127.0.0.1:2222'', SSHConfig.User = ''keyuser'', SSHConfig.Port = '''',
        SSHConfig.Key = ''PLAIN KEY'', Passphrase = '''', SSHConfig.Password = ''''\<rparr>)))
   \<and> ConnectAndShell mockWorld
       \<lparr>Address = ''127.0.0.1:2222'', SSHConfig.User = ''keyuser'', SSHConfig.Port = '''',
        SSHConfig.Key = ''PLAIN KEY'', Passphrase = '''', SSHConfig.Password = ''''\<rparr> =
     (None,
      [CallDial ''127.0.0.1:2222''
         \<lparr>ClientConfig.User = ''keyuser'', Auth = [ssh_PublicKeys (Signer ''plain'')],
          HostKeyCallback = InsecureIgnoreHostKey\<rparr>,
       CallNewSession, CallShell, CallWait, CallSessionClose, CallClientClose])
   \<and> ConnectAndShell (mockWorld\<lparr>Shell := Some (ErrorString ''ssh: shell request failed'')\<rparr>)
       \<lparr>Address = ''127.0.0.1:2222'', SSHConfig.User = ''keyuser'', SSHConfig.Port = '''',
        SSHConfig.Key = ''PLAIN KEY'', Passphrase = '''', SSHConfig.Password = ''''\<rparr> =
     (Some (WrapError ''failed to start remote shell: ''
        (ErrorString ''ssh: shell request failed'')),
      [CallDial ''127.0.0.1:2222''
         \<lparr>ClientConfig.User = ''keyuser'', Auth = [ssh_PublicKeys (Signer ''plain'')],
          HostKeyCallback = InsecureIgnoreHostKey\<rparr>,
       CallNewSession, CallShell, CallSessionClose, CallClientClose])
   \<and> CallRequestPty ''xterm-256color'' 24 80 modes \<in> set (snd (ConnectAndShell
       (mockWorld\<lparr>IsTerminal := True, GetSize := Inl (ErrorString ''inappropriate ioctl for device'')\<rparr>)
       \<lparr>Address = ''127.0.0.1:2222'', SSHConfig.User = ''keyuser'', SSHConfig.Port = '''',
        SSHConfig.Key = ''PLAIN KEY'', Passphrase = '''', SSHConfig.Password = ''''\<rparr>))"
  using
    pty_request [of mockWorld
      "\<lparr>Address = ''127.0.0.1:2222'', SSHConfig.User = ''keyuser'', SSHConfig.Port = '''',
        SSHConfig.Key = ''PLAIN KEY'', Passphrase = '''', SSHConfig.Password = ''''\<rparr>"
      "[ssh_PublicKeys (Signer ''plain'')]"
      "ErrorString ''inappropriate ioctl for device''"]
    pty_request [of
      "mockWorld\<lparr>Shell := Some (ErrorString ''ssh: shell request failed'')\<rparr>"
      "\<lparr>Address = ''127.0.0.1:2222'', SSHConfig.User = ''keyuser'', SSHConfig.Port = '''',
        SSHConfig.Key = ''PLAIN KEY'', Passphrase = '''', SSHConfig.Password = ''''\<rparr>"
      "[ssh_PublicKeys (Signer ''plain'')]"
      "ErrorString ''inappropriate ioctl for device''"]
    pty_request [of
      "mockWorld\<lparr>IsTerminal := True, GetSize := Inl (ErrorString ''inappropriate ioctl for device'')\<rparr>"
      "\<lparr>Address = ''127.0.0.1:2222'', SSHConfig.User = ''keyuser'', SSHConfig.Port = '''',
        SSHConfig.Key = ''PLAIN KEY'', Passphrase = '''', SSHConfig.Password = ''''\<rparr>"
      "[ssh_PublicKeys (Signer ''plain'')]"
      "ErrorString ''inappropriate ioctl for device''"]
  by (simp add: prepare_auth_def authMethods_def key_auth_def client_config_def
      wait_session_def mockWorld_def)

subsection \<open>The end of the session\<close>

lemma start_shell_waited:
  "CallWait \<in> set (snd (start_shell w)) \<Longrightarrow> fst (start_shell w) = wait_session w"
  by (simp add: start_shell_def split: option.splits)

lemma run_session_waited:
  "CallWait \<in> set (snd (run_session w)) \<Longrightarrow> fst (run_session w) = wait_session w"
  by (auto simp add: run_session_def Let_def start_shell_waited split: option.splits if_splits)

lemma ConnectAndShell_waited:
  "CallWait \<in> set (snd (ConnectAndShell w cfg)) \<Longrightarrow>
     fst (ConnectAndShell w cfg) = wait_session w"
  by (auto simp add: ConnectAndShell_def Let_def run_session_waited
      split: sum.splits option.splits)

text \<open>
  Claim C2. Let the session reach the running shell, that is, \<open>session.Wait()\<close> is
  called. When the wait ends with an \<open>ExitError\<close> (a remote exit status, non-zero or
  not), \<open>ConnectAndShell\<close> returns nil. When it ends with any other error,
  \<open>ConnectAndShell\<close> returns the error \<open>SSH session ended with unexpected error\<close>
  wrapping that error.
\<close>

theorem wait_outcome:
  assumes "CallWait \<in> set (snd (ConnectAndShell w cfg))"
  shows "(Wait w = Some (ExitError st m) \<longrightarrow> fst (ConnectAndShell w cfg) = None)
       \<and> (Wait w = Some err \<and> (\<forall>st m. err \<noteq> ExitError st m) \<longrightarrow>
            fst (ConnectAndShell w cfg) =
              Some (WrapError ''SSH session ended with unexpected error: '' err))"
  using ConnectAndShell_waited [OF assms]
  by (cases err) (auto simp add: wait_session_def)

theorem wait_outcome_witness:
  "fst (ConnectAndShell
         (mockWorld\<lparr>Wait := Some (ExitError 1 ''Process exited with status 1'')\<rparr>)
         \<lparr>Address = ''127.0.0.1:2222'', SSHConfig.User = ''keyuser'', SSHConfig.Port = '''',
          SSHConfig.Key = ''PLAIN KEY'', Passphrase = '''', SSHConfig.Password = ''''\<rparr>) = None
   \<and> fst (ConnectAndShell
         (mockWorld\<lparr>Wait := Some (ErrorString ''wait: remote command exited without exit status or exit signal'')\<rparr>)
         \<lparr>Address = ''127.0.0.1:2222'', SSHConfig.User = ''keyuser'', SSHConfig.Port = '''',
          SSHConfig.Key = ''PLAIN KEY'', Passphrase = '''', SSHConfig.Password = ''''\<rparr>) =
       Some (WrapError ''SSH session ended with unexpected error: ''
         (ErrorString ''wait: remote command exited without exit status or exit signal''))"
  using
    wait_outcome [of
      "mockWorld\<lparr>Wait := Some (ExitError 1 ''Process exited with status 1'')\<rparr>"
      "\<lparr>Address = ''127.0.0.1:2222'', SSHConfig.User = ''keyuser'', SSHConfig.Port = '''',
        SSHConfig.Key = ''PLAIN KEY'', Passphrase = '''', SSHConfig.Password = ''''\<rparr>"
      1 "''Process exited with status 1''"
      "ExitError 1 ''Process exited with status 1''"]
    wait_outcome [of
      "mockWorld\<lparr>Wait := Some (ErrorString ''wait: remote command exited without exit status or exit signal'')\<rparr>"
      "\<lparr>Address = ''127.0.0.1:2222'', SSHConfig.User = ''keyuser'', SSHConfig.Port = '''',
        SSHConfig.Key = ''PLAIN KEY'', Passphrase = '''', SSHConfig.Password = ''''\<rparr>"
      1 "''Process exited with status 1''"
      "ErrorString ''wait: remote command exited without exit status or exit signal''"]
  by (simp add: session_defs)

end
